theory Spec2Isabelle
  imports Main "HOL-Library.Sublist" "HOL-Library.Code_Target_Numeral"
begin

section \<open>Strings and formatting helpers of the Go runtime\<close>

text \<open>
  Go strings are byte sequences; they are modelled as \<open>string\<close> (a list of 8-bit
  characters). Go's \<open>int\<close> is modelled as \<open>int\<close>; the only place where the machine
  width matters is \<open>strconv.Atoi\<close>, whose range check is written out below.
\<close>

text \<open>\<open>strings.Join(elems, sep)\<close>.\<close>

fun Join :: "string list \<Rightarrow> string \<Rightarrow> string" where
  "Join [] sep = []"
| "Join [x] sep = x"
| "Join (x # y # ys) sep = x @ sep @ Join (y # ys) sep"

text \<open>Decimal rendering of a natural number and of an integer (\<open>%d\<close> of \<open>fmt\<close>).\<close>

fun digits :: "nat \<Rightarrow> string" where
  "digits n =
     (if n < 10 then [''0123456789'' ! n]
      else digits (n div 10) @ [''0123456789'' ! (n mod 10)])"

declare digits.simps [simp del]

definition itoa :: "int \<Rightarrow> string" where
  "itoa i = (if i < 0 then CHR ''-'' # digits (nat (- i)) else digits (nat i))"

text \<open>Every error of the package is an error value carrying its message.\<close>

datatype error = Error string

fun error_message :: "error \<Rightarrow> string" where
  "error_message (Error m) = m"

section \<open>String functions of the Go library used by the parser\<close>

text \<open>\<open>strings.Index\<close>: position of the first occurrence, or -1.\<close>

fun Index :: "string \<Rightarrow> string \<Rightarrow> int" where
  "Index [] sub = (if sub = [] then 0 else - 1)"
| "Index (c # cs) sub =
     (if prefix sub (c # cs) then 0
      else (let i = Index cs sub in if i < 0 then - 1 else i + 1))"

definition TrimPrefix :: "string \<Rightarrow> string \<Rightarrow> string" where
  "TrimPrefix s pre = (if prefix pre s then drop (length pre) s else s)"

definition TrimSuffix :: "string \<Rightarrow> string \<Rightarrow> string" where
  "TrimSuffix s suf = (if suffix suf s then take (length s - length suf) s else s)"

text \<open>
  \<open>strings.TrimSpace\<close> removes the leading and trailing white space as defined by
  Unicode. On the bytes of a string, a white-space character is one of the following
  UTF-8 sequences: the six ASCII ones, U+0085, U+00A0, U+1680, U+2000 to U+200A, U+2028,
  U+2029, U+202F, U+205F and U+3000.
\<close>

definition spaceRunes :: "string list" where
  "spaceRunes =
     [[CHR 0x09], [CHR 0x0A], [CHR 0x0B], [CHR 0x0C], [CHR 0x0D], [CHR 0x20],
      [CHR 0xC2, CHR 0x85], [CHR 0xC2, CHR 0xA0],
      [CHR 0xE1, CHR 0x9A, CHR 0x80],
      [CHR 0xE2, CHR 0x80, CHR 0x80], [CHR 0xE2, CHR 0x80, CHR 0x81],
      [CHR 0xE2, CHR 0x80, CHR 0x82], [CHR 0xE2, CHR 0x80, CHR 0x83],
      [CHR 0xE2, CHR 0x80, CHR 0x84], [CHR 0xE2, CHR 0x80, CHR 0x85],
      [CHR 0xE2, CHR 0x80, CHR 0x86], [CHR 0xE2, CHR 0x80, CHR 0x87],
      [CHR 0xE2, CHR 0x80, CHR 0x88], [CHR 0xE2, CHR 0x80, CHR 0x89],
      [CHR 0xE2, CHR 0x80, CHR 0x8A],
      [CHR 0xE2, CHR 0x80, CHR 0xA8], [CHR 0xE2, CHR 0x80, CHR 0xA9],
      [CHR 0xE2, CHR 0x80, CHR 0xAF],
      [CHR 0xE2, CHR 0x81, CHR 0x9F],
      [CHR 0xE3, CHR 0x80, CHR 0x80]]"

text \<open>Byte length of a white-space character at the beginning (at the end); 0 if none.\<close>

definition leadingSpace :: "string \<Rightarrow> nat" where
  "leadingSpace s =
     (case List.find (\<lambda>r. prefix r s) spaceRunes of None \<Rightarrow> 0 | Some r \<Rightarrow> length r)"

definition trailingSpace :: "string \<Rightarrow> nat" where
  "trailingSpace s =
     (case List.find (\<lambda>r. suffix r s) spaceRunes of None \<Rightarrow> 0 | Some r \<Rightarrow> length r)"

lemma spaceRunes_nonempty: "r \<in> set spaceRunes \<Longrightarrow> r \<noteq> []"
  by (auto simp: spaceRunes_def)

lemma find_Some_holds: "List.find P xs = Some x \<Longrightarrow> P x \<and> x \<in> set xs"
  by (induction xs) (auto split: if_splits)

lemma leadingSpace_bounds: "leadingSpace s \<le> length s \<and> (0 < leadingSpace s \<longrightarrow> s \<noteq> [])"
proof (cases "List.find (\<lambda>r. prefix r s) spaceRunes")
  case None
  then show ?thesis by (simp add: leadingSpace_def)
next
  case (Some r)
  then have "prefix r s" "r \<in> set spaceRunes"
    using find_Some_holds [of "\<lambda>r. prefix r s" spaceRunes r] by auto
  then show ?thesis
    using Some spaceRunes_nonempty [of r] by (auto simp: leadingSpace_def prefix_length_le)
qed

lemma trailingSpace_bounds: "trailingSpace s \<le> length s \<and> (0 < trailingSpace s \<longrightarrow> s \<noteq> [])"
proof (cases "List.find (\<lambda>r. suffix r s) spaceRunes")
  case None
  then show ?thesis by (simp add: trailingSpace_def)
next
  case (Some r)
  then have "suffix r s" "r \<in> set spaceRunes"
    using find_Some_holds [of "\<lambda>r. suffix r s" spaceRunes r] by auto
  then show ?thesis
    using Some spaceRunes_nonempty [of r] by (auto simp: trailingSpace_def suffix_length_le)
qed

function TrimLeftSpace :: "string \<Rightarrow> string" where
  "TrimLeftSpace s = (if leadingSpace s = 0 then s else TrimLeftSpace (drop (leadingSpace s) s))"
  by pat_completeness auto
termination
  using leadingSpace_bounds by (relation "measure length") auto

function TrimRightSpace :: "string \<Rightarrow> string" where
  "TrimRightSpace s =
     (if trailingSpace s = 0 then s else TrimRightSpace (take (length s - trailingSpace s) s))"
  by pat_completeness auto
termination
  using trailingSpace_bounds by (relation "measure length") auto

declare TrimLeftSpace.simps [simp del] TrimRightSpace.simps [simp del]

definition TrimSpace :: "string \<Rightarrow> string" where
  "TrimSpace s = TrimRightSpace (TrimLeftSpace s)"

text \<open>\<open>strings.Split(s, sep)\<close> for a separator of one byte.\<close>

fun Split :: "string \<Rightarrow> char \<Rightarrow> string list" where
  "Split [] sep = [[]]"
| "Split (c # cs) sep =
     (if c = sep then [] # Split cs sep
      else (case Split cs sep of [] \<Rightarrow> [[c]] | x # xs \<Rightarrow> (c # x) # xs))"

section \<open>Path functions of the Go library (path/filepath, on a Unix system)\<close>

text \<open>
  The functions of \<open>path/filepath\<close> are modelled for a system whose separator is the
  slash and which has no volume names: \<open>ToSlash\<close> and \<open>FromSlash\<close> are the identity
  and \<open>IsAbs\<close> tests for a leading slash.
\<close>

definition ToSlash :: "string \<Rightarrow> string" where
  "ToSlash path = path"

definition FromSlash :: "string \<Rightarrow> string" where
  "FromSlash path = path"

definition IsAbs :: "string \<Rightarrow> bool" where
  "IsAbs path \<longleftrightarrow> prefix ''/'' path"

text \<open>
  \<open>filepath.Clean\<close>. The output buffer is a string; \<open>dotdot\<close> is the length below
  which a \<open>..\<close> element must not remove anything. Going back over one element first
  drops a byte and then all bytes down to (not including) a separator or \<open>dotdot\<close>.
\<close>

fun backtrackTo :: "string \<Rightarrow> nat \<Rightarrow> nat \<Rightarrow> nat" where
  "backtrackTo out 0 dotdot = 0"
| "backtrackTo out (Suc w) dotdot =
     (if Suc w > dotdot \<and> out ! Suc w \<noteq> CHR ''/'' then backtrackTo out w dotdot else Suc w)"

definition backtrack :: "string \<Rightarrow> nat \<Rightarrow> string" where
  "backtrack out dotdot = take (backtrackTo out (length out - 1) dotdot) out"

function cleanLoop :: "bool \<Rightarrow> string \<Rightarrow> string \<Rightarrow> nat \<Rightarrow> string" where
  "cleanLoop rooted [] out dotdot = out"
| "cleanLoop rooted (c # cs) out dotdot =
     (if c = CHR ''/'' then cleanLoop rooted cs out dotdot
      else if c = CHR ''.'' \<and> (cs = [] \<or> hd cs = CHR ''/'') then cleanLoop rooted cs out dotdot
      else if c = CHR ''.'' \<and> hd cs = CHR ''.'' \<and> (tl cs = [] \<or> hd (tl cs) = CHR ''/'') then
        (if length out > dotdot then cleanLoop rooted (tl cs) (backtrack out dotdot) dotdot
         else if \<not> rooted then
           cleanLoop rooted (tl cs) ((if length out > 0 then out @ ''/'' else out) @ ''..'')
             (length ((if length out > 0 then out @ ''/'' else out) @ ''..''))
         else cleanLoop rooted (tl cs) out dotdot)
      else
        cleanLoop rooted (dropWhile (\<lambda>x. x \<noteq> CHR ''/'') (c # cs))
          ((if (rooted \<and> length out \<noteq> 1) \<or> (\<not> rooted \<and> length out \<noteq> 0)
            then out @ ''/'' else out) @ takeWhile (\<lambda>x. x \<noteq> CHR ''/'') (c # cs))
          dotdot)"
  by pat_completeness auto
termination
proof (relation "measure (\<lambda>(rooted, path, out, dotdot). length path)", goal_cases)
  case 1
  show ?case by simp
next
  case (2 rooted c cs out dotdot)
  show ?case by simp
next
  case (3 rooted c cs out dotdot)
  show ?case by simp
next
  case (4 rooted c cs out dotdot)
  show ?case by (cases cs) auto
next
  case (5 rooted c cs out dotdot)
  show ?case by (cases cs) auto
next
  case (6 rooted c cs out dotdot)
  show ?case by (cases cs) auto
next
  case (7 rooted c cs out dotdot)
  have "length (dropWhile (\<lambda>x. x \<noteq> CHR ''/'') cs) \<le> length cs"
    by (rule length_dropWhile_le)
  then show ?case using 7 by simp
qed

definition Clean :: "string \<Rightarrow> string" where
  "Clean path =
     (if path = [] then ''.''
      else
        let rooted = (hd path = CHR ''/'');
            out = (if rooted then cleanLoop rooted (tl path) ''/'' 1
                   else cleanLoop rooted path [] 0)
        in if out = [] then ''.'' else out)"

text \<open>
  \<open>filepath.Join\<close>: the elements from the first non-empty one on, joined by the
  separator and cleaned; the empty string when all are empty.
\<close>

definition JoinPath :: "string list \<Rightarrow> string" where
  "JoinPath elems =
     (case dropWhile (\<lambda>e. e = []) elems of
        [] \<Rightarrow> []
      | e # es \<Rightarrow> Clean (Join (e # es) ''/''))"

text \<open>\<open>filepath.Base\<close> and \<open>filepath.Dir\<close>.\<close>

definition stripTrailingSlashes :: "string \<Rightarrow> string" where
  "stripTrailingSlashes path = rev (dropWhile (\<lambda>c. c = CHR ''/'') (rev path))"

definition Base :: "string \<Rightarrow> string" where
  "Base path =
     (if path = [] then ''.''
      else
        let p = stripTrailingSlashes path;
            p' = rev (takeWhile (\<lambda>c. c \<noteq> CHR ''/'') (rev p))
        in if p' = [] then ''/'' else p')"

definition Dir :: "string \<Rightarrow> string" where
  "Dir path = Clean (rev (dropWhile (\<lambda>c. c \<noteq> CHR ''/'') (rev path)))"

text \<open>\<open>filepath.Ext\<close>: from the last dot of the last element on.\<close>

definition Ext :: "string \<Rightarrow> string" where
  "Ext path =
     (let last_elem = rev (takeWhile (\<lambda>c. c \<noteq> CHR ''/'') (rev path))
      in if CHR ''.'' \<in> set last_elem
         then CHR ''.'' # rev (takeWhile (\<lambda>c. c \<noteq> CHR ''.'') (rev last_elem))
         else [])"

text \<open>
  \<open>filepath.Rel\<close>. The loop moves \<open>bi\<close> and \<open>ti\<close> to the ends of the current
  elements of the cleaned base and target and stops at the first pair that differs; it
  returns \<open>b0\<close>, \<open>bi\<close> and \<open>t0\<close>.
\<close>

definition elementEnd :: "string \<Rightarrow> nat \<Rightarrow> nat" where
  "elementEnd s i = i + length (takeWhile (\<lambda>c. c \<noteq> CHR ''/'') (drop i s))"

definition slice :: "string \<Rightarrow> nat \<Rightarrow> nat \<Rightarrow> string" where
  "slice s i j = take (j - i) (drop i s)"

function relLoop :: "string \<Rightarrow> string \<Rightarrow> nat \<Rightarrow> nat \<Rightarrow> nat \<Rightarrow> nat \<Rightarrow> nat \<times> nat \<times> nat" where
  "relLoop base targ b0 bi t0 ti =
     (if bi < length base \<and> ti < length targ then
        (let bi' = elementEnd base bi;
             ti' = elementEnd targ ti
         in if slice targ t0 ti' \<noteq> slice base b0 bi' then (b0, bi', t0)
            else
              (let bi'' = (if bi' < length base then bi' + 1 else bi');
                   ti'' = (if ti' < length targ then ti' + 1 else ti')
               in relLoop base targ bi'' bi'' ti'' ti''))
      else (b0, bi, t0))"
  by pat_completeness auto
termination
  by (relation "measure (\<lambda>(base, targ, b0, bi, t0, ti). length base - bi)")
     (auto simp: elementEnd_def)

declare relLoop.simps [simp del]

definition Rel :: "string \<Rightarrow> string \<Rightarrow> error + string" where
  "Rel basepath targpath =
     (let base0 = Clean basepath;
          targ = Clean targpath
      in if targ = base0 then Inr ''.''
         else
           let base = (if base0 = ''.'' then [] else base0);
               baseSlashed = (base \<noteq> [] \<and> hd base = CHR ''/'');
               targSlashed = (targ \<noteq> [] \<and> hd targ = CHR ''/'')
           in if baseSlashed \<noteq> targSlashed
              then Inl (Error (''Rel: can't make '' @ targpath @ '' relative to '' @ basepath))
              else
                (case relLoop base targ 0 0 0 0 of
                   (b0, bi, t0) \<Rightarrow>
                     if slice base b0 bi = ''..''
                     then Inl (Error (''Rel: can't make '' @ targpath @ '' relative to '' @ basepath))
                     else if b0 \<noteq> length base then
                       Inr (''..'' @ concat (replicate (count_list (drop b0 base) (CHR ''/'')) ''/..'')
                             @ (if t0 \<noteq> length targ then ''/'' @ drop t0 targ else []))
                     else Inr (drop t0 targ)))"

text \<open>\<open>strings.ReplaceAll\<close> for a pattern of one byte.\<close>

definition ReplaceAllChar :: "string \<Rightarrow> char \<Rightarrow> string \<Rightarrow> string" where
  "ReplaceAllChar s old new = concat (map (\<lambda>c. if c = old then new else [c]) s)"

text \<open>
  \<open>strings.ToLower\<close> on the ASCII letters; whether a path ends in \<open>.md\<close> after
  lowering depends on its last three bytes only, and no other character lowers to an
  ASCII letter of that suffix.
\<close>

definition toLowerChar :: "char \<Rightarrow> char" where
  "toLowerChar c =
     (case map_of (zip ''ABCDEFGHIJKLMNOPQRSTUVWXYZ'' ''abcdefghijklmnopqrstuvwxyz'') c of
        None \<Rightarrow> c
      | Some l \<Rightarrow> l)"

definition ToLower :: "string \<Rightarrow> string" where
  "ToLower s = map toLowerChar s"

section \<open>Command names (name.go)\<close>

definition deriveCommandName :: "string \<Rightarrow> string \<Rightarrow> string \<times> string" where
  "deriveCommandName path baseDir =
     (let relPath0 = (case Rel baseDir path of Inl err \<Rightarrow> path | Inr rel \<Rightarrow> rel);
          relPath1 = ToSlash relPath0;
          relPath2 = TrimSuffix relPath1 ''.md'';
          relPath = TrimSuffix relPath2 ''.MD'';
          dir = Dir relPath;
          filename = Base relPath
      in if dir = ''.'' \<or> dir = [] \<or> dir = ''/'' then (filename, [])
         else
           let namespace = ReplaceAllChar (ReplaceAllChar dir (CHR ''/'') '':'') (CHR 0x5C) '':''
           in (namespace @ '':'' @ filename, namespace))"

section \<open>The metadata-block parser (frontmatter.go)\<close>

record Frontmatter =
  fm_Description :: string
  fm_ArgumentHint :: string
  fm_AllowedTools :: "string list"

definition emptyFrontmatter :: Frontmatter where
  "emptyFrontmatter = \<lparr>fm_Description = [], fm_ArgumentHint = [], fm_AllowedTools = []\<rparr>"

text \<open>
  \<open>yaml.Unmarshal\<close> belongs to a library outside the repository and is a parameter of
  the model. It fills a \<open>Frontmatter\<close>, returns an error, or panics; a panic is caught
  by the deferred \<open>recover\<close> of \<open>ParseFrontmatter\<close>, which then returns the zero
  values of its unnamed results.
\<close>

datatype yaml_result = Unmarshalled Frontmatter | UnmarshalError | UnmarshalPanic

definition BOM :: string where
  "BOM = [CHR 0xEF, CHR 0xBB, CHR 0xBF]"

definition closingDelimiter :: string where
  "closingDelimiter = [CHR 0x0A, CHR ''-'', CHR ''-'', CHR ''-'', CHR 0x0A]"

text \<open>
  The search for the closing delimiter: the first \<open>"\n---\n"\<close>, or else \<open>"\n---"\<close> at
  the very end.
\<close>

definition closingIndex :: "string \<Rightarrow> int option" where
  "closingIndex content =
     (if Index content closingDelimiter \<noteq> - 1 then Some (Index content closingDelimiter)
      else if suffix (butlast closingDelimiter) content then Some (int (length content) - 4)
      else None)"

text \<open>The bytes \<open>content[yamlStart:yamlEnd]\<close> between the delimiters.\<close>

definition blockBetween :: "string \<Rightarrow> int \<Rightarrow> string" where
  "blockBetween content closing =
     (let yamlStart = Index content [CHR 0x0A] + 1;
          yamlEnd = (if closing > int (length content) then int (length content) else closing)
      in take (nat (yamlEnd - yamlStart)) (drop (nat yamlStart) content))"

text \<open>The handling of a comma-separated \<open>allowed-tools\<close> string.\<close>

definition splitAllowedTools :: "Frontmatter \<Rightarrow> Frontmatter" where
  "splitAllowedTools fm =
     (if length (fm_AllowedTools fm) = 1 \<and> CHR '','' \<in> set (fm_AllowedTools fm ! 0)
      then fm\<lparr>fm_AllowedTools :=
                filter (\<lambda>t. t \<noteq> []) (map TrimSpace (Split (fm_AllowedTools fm ! 0) (CHR '','')))\<rparr>
      else fm)"

definition ParseFrontmatter ::
  "(string \<Rightarrow> yaml_result) \<Rightarrow> string \<Rightarrow> Frontmatter \<times> string \<times> error option" where
  "ParseFrontmatter yamlUnmarshal content0 =
     (if content0 = [] then (emptyFrontmatter, [], None)
      else
        let content = TrimPrefix content0 BOM
        in if \<not> prefix ''---'' content then (emptyFrontmatter, content, None)
           else
             case closingIndex content of
               None \<Rightarrow> (emptyFrontmatter, content, None)
             | Some closing \<Rightarrow>
                 let yamlStart = Index content [CHR 0x0A] + 1
                 in if yamlStart = 0 \<or> yamlStart > int (length content)
                    then (emptyFrontmatter, content, None)
                    else if closing < yamlStart then (emptyFrontmatter, content, None)
                    else
                      let yamlContent = TrimSpace (blockBetween content closing)
                      in if yamlContent = [] then (emptyFrontmatter, content, None)
                         else
                           let remainingStart =
                                 (if closing + 5 > int (length content) then int (length content)
                                  else closing + 5);
                               remainingContent = TrimSpace (drop (nat remainingStart) content)
                           in (case yamlUnmarshal yamlContent of
                                 UnmarshalError \<Rightarrow> (emptyFrontmatter, content, None)
                               | UnmarshalPanic \<Rightarrow> (emptyFrontmatter, [], None)
                               | Unmarshalled fm \<Rightarrow>
                                   (splitAllowedTools fm, remainingContent, None)))"

section \<open>Argument requirements (arguments.go)\<close>

record RequiredArguments =
  HasAllArguments :: bool
  MaxPositional :: int
  RequiredCount :: int

text \<open>
  The two placeholder patterns are compiled regular expressions in the source. Each is
  modelled by a scanner that finds what Go's leftmost, non-overlapping matching finds:
  \<open>\$(\d+)\<close> is a dollar sign followed by the longest run of ASCII digits, and
  \<open>\$(?:ARGS|ARGUMENTS)\<close> is one of two fixed words.
\<close>

definition isDigit :: "char \<Rightarrow> bool" where
  "isDigit c \<longleftrightarrow> c \<in> set ''0123456789''"

definition digitVal :: "char \<Rightarrow> nat" where
  "digitVal c = of_char c - 48"

definition parseDigits :: "string \<Rightarrow> nat" where
  "parseDigits ds = foldl (\<lambda>acc c. 10 * acc + digitVal c) 0 ds"

text \<open>
  \<open>strconv.Atoi\<close> on a platform whose \<open>int\<close> has 64 bits: an optional sign, then
  at least one decimal digit and nothing else; a value outside the range of \<open>int\<close> is
  an error (\<open>None\<close>), as is a malformed string.
\<close>

definition Atoi :: "string \<Rightarrow> int option" where
  "Atoi s =
     (let neg = (s \<noteq> [] \<and> hd s = CHR ''-'');
          ds = (if s \<noteq> [] \<and> (hd s = CHR ''+'' \<or> hd s = CHR ''-'') then tl s else s)
      in if ds = [] \<or> \<not> list_all isDigit ds then None
         else if neg then
           (if parseDigits ds \<le> 2 ^ 63 then Some (- int (parseDigits ds)) else None)
         else
           (if parseDigits ds \<le> 2 ^ 63 - 1 then Some (int (parseDigits ds)) else None))"

text \<open>
  \<open>positionalArgPattern.FindAllStringSubmatch(content, -1)\<close>: the digit strings
  (submatch 1) of all matches, in order.
\<close>

function findPositional :: "string \<Rightarrow> string list" where
  "findPositional [] = []"
| "findPositional (c # cs) =
     (if c = CHR ''$'' \<and> takeWhile isDigit cs \<noteq> []
      then takeWhile isDigit cs # findPositional (dropWhile isDigit cs)
      else findPositional cs)"
  by pat_completeness auto
termination
  by (relation "measure length") (auto simp: less_Suc_eq_le length_dropWhile_le)

text \<open>
  \<open>positionalArgPattern.ReplaceAllStringFunc(src, repl)\<close>: every match (the dollar
  sign with its digits) is replaced by \<open>repl match\<close>; the text between matches is kept.
\<close>

function replacePositional :: "(string \<Rightarrow> string) \<Rightarrow> string \<Rightarrow> string" where
  "replacePositional repl [] = []"
| "replacePositional repl (c # cs) =
     (if c = CHR ''$'' \<and> takeWhile isDigit cs \<noteq> []
      then repl (c # takeWhile isDigit cs) @ replacePositional repl (dropWhile isDigit cs)
      else c # replacePositional repl cs)"
  by pat_completeness auto
termination
  by (relation "measure (\<lambda>(repl, s). length s)") (auto simp: less_Suc_eq_le length_dropWhile_le)

text \<open>
  Length of the match of \<open>\$(?:ARGS|ARGUMENTS)\<close> at the beginning of a string, 0 when
  there is none; the alternatives are tried in the order written.
\<close>

definition allArgumentsAt :: "string \<Rightarrow> nat" where
  "allArgumentsAt s =
     (if prefix ''$ARGS'' s then 5 else if prefix ''$ARGUMENTS'' s then 10 else 0)"

text \<open>\<open>allArgumentsPattern.MatchString(content)\<close>.\<close>

fun matchAllArguments :: "string \<Rightarrow> bool" where
  "matchAllArguments [] = False"
| "matchAllArguments (c # cs) = (allArgumentsAt (c # cs) > 0 \<or> matchAllArguments cs)"

text \<open>\<open>positionalArgPattern.MatchString(content)\<close>.\<close>

definition matchPositional :: "string \<Rightarrow> bool" where
  "matchPositional content \<longleftrightarrow> findPositional content \<noteq> []"

text \<open>
  Replacement of every match of the all-arguments pattern; \<open>repl\<close> receives the
  matched text.
\<close>

function replaceAllArguments :: "(string \<Rightarrow> string) \<Rightarrow> string \<Rightarrow> string" where
  "replaceAllArguments repl [] = []"
| "replaceAllArguments repl (c # cs) =
     (if allArgumentsAt (c # cs) > 0
      then repl (take (allArgumentsAt (c # cs)) (c # cs))
             @ replaceAllArguments repl (drop (allArgumentsAt (c # cs)) (c # cs))
      else c # replaceAllArguments repl cs)"
  by pat_completeness auto
termination
  by (relation "measure (\<lambda>(repl, s). length s)") auto

text \<open>
  \<open>Regexp.ReplaceAllString\<close> interprets dollar signs of the replacement as in
  \<open>Regexp.Expand\<close>. The following is the expansion for a pattern without capture
  groups, as the all-arguments pattern is: \<open>$$\<close> is a dollar sign, \<open>$0\<close> and
  \<open>${0}\<close> are the matched text, any other \<open>$name\<close> or \<open>${name}\<close> is empty, and
  a dollar sign that starts no name is kept. A name is the longest run of letters, digits
  and underscores; only the ASCII ones are recognised here.
\<close>

definition isNameChar :: "char \<Rightarrow> bool" where
  "isNameChar c \<longleftrightarrow>
     c \<in> set ''abcdefghijklmnopqrstuvwxyzABCDEFGHIJKLMNOPQRSTUVWXYZ0123456789_''"

fun extract_num :: "string \<Rightarrow> int \<Rightarrow> int" where
  "extract_num [] num = num"
| "extract_num (c # cs) num =
     (if \<not> isDigit c \<or> num \<ge> 100000000 then - 1
      else extract_num cs (num * 10 + int (digitVal c)))"

definition extractName :: "string \<Rightarrow> (string \<times> int \<times> string) option" where
  "extractName str =
     (if str = [] then None
      else
        let brace = (hd str = CHR 0x7B);
            str1 = (if brace then tl str else str);
            name = takeWhile isNameChar str1;
            i = length name
        in if i = 0 then None
           else if brace \<and> (i \<ge> length str1 \<or> str1 ! i \<noteq> CHR 0x7D) then None
           else
             let num = (if hd name = CHR ''0'' \<and> length name > 1 then - 1
                        else extract_num name 0)
             in Some (name, num, drop (if brace then i + 1 else i) str1))"

lemma extract_rest_length: "extractName str = Some (name, num, rest) \<Longrightarrow> length rest \<le> length str"
  by (auto simp: extractName_def Let_def split: if_splits)

function expand :: "string \<Rightarrow> string \<Rightarrow> string" where
  "expand template matched =
     (if CHR ''$'' \<notin> set template then template
      else
        let before = takeWhile (\<lambda>c. c \<noteq> CHR ''$'') template;
            after = tl (dropWhile (\<lambda>c. c \<noteq> CHR ''$'') template)
        in before @
           (if after \<noteq> [] \<and> hd after = CHR ''$'' then CHR ''$'' # expand (tl after) matched
            else case extractName after of
                   None \<Rightarrow> CHR ''$'' # expand after matched
                 | Some (name, num, rest) \<Rightarrow>
                     (if num = 0 then matched else []) @ expand rest matched))"
  by pat_completeness auto
termination
proof (relation "measure (\<lambda>(template, matched). length template)", goal_cases)
  case 1
  show ?case by simp
next
  case (2 template matched before after)
  have "dropWhile (\<lambda>c. c \<noteq> CHR ''$'') template \<noteq> []"
    using 2(1) by simp
  then have "length after < length template"
    using 2(3) length_dropWhile_le [of "\<lambda>c. c \<noteq> CHR ''$''" template]
    by (cases "dropWhile (\<lambda>c. c \<noteq> CHR ''$'') template") auto
  then show ?case using 2(4) by (cases after) auto
next
  case (3 template matched before after)
  have "dropWhile (\<lambda>c. c \<noteq> CHR ''$'') template \<noteq> []"
    using 3(1) by simp
  then have "length after < length template"
    using 3(3) length_dropWhile_le [of "\<lambda>c. c \<noteq> CHR ''$''" template]
    by (cases "dropWhile (\<lambda>c. c \<noteq> CHR ''$'') template") auto
  then show ?case by simp
next
  case (4 template matched before after x2 name y num rest)
  have "dropWhile (\<lambda>c. c \<noteq> CHR ''$'') template \<noteq> []"
    using 4(1) by simp
  then have "length after < length template"
    using 4(3) length_dropWhile_le [of "\<lambda>c. c \<noteq> CHR ''$''" template]
    by (cases "dropWhile (\<lambda>c. c \<noteq> CHR ''$'') template") auto
  moreover have "extractName after = Some (name, num, rest)"
    using 4 by simp
  then have "length rest \<le> length after"
    by (rule extract_rest_length)
  ultimately show ?case by simp
qed

declare expand.simps [simp del]

text \<open>\<open>allArgumentsPattern.ReplaceAllString(content, repl)\<close>.\<close>

definition ReplaceAllString_allArguments :: "string \<Rightarrow> string \<Rightarrow> string" where
  "ReplaceAllString_allArguments content repl = replaceAllArguments (expand repl) content"

definition hasArgumentPlaceholders :: "string \<Rightarrow> bool" where
  "hasArgumentPlaceholders content \<longleftrightarrow> matchAllArguments content \<or> matchPositional content"

text \<open>
  The loop of \<open>hasAllRequiredArguments\<close> fills a set of the positions between 1 and
  \<open>requiredCount\<close> that are referenced; references that \<open>Atoi\<close> rejects are skipped.
\<close>

definition hasAllRequiredArguments :: "string \<Rightarrow> int \<Rightarrow> bool" where
  "hasAllRequiredArguments content requiredCount =
     (if matchAllArguments content then True
      else if requiredCount \<le> 0 then True
      else
        let foundArgs = {pos \<in> set (List.map_filter Atoi (findPositional content)).
                           1 \<le> pos \<and> pos \<le> requiredCount}
        in int (card foundArgs) = requiredCount)"

text \<open>
  The loop of \<open>extractRequiredArguments\<close> over the matches, with its running maximum.
\<close>

fun maxPosLoop :: "string list \<Rightarrow> int \<Rightarrow> int" where
  "maxPosLoop [] maxPos = maxPos"
| "maxPosLoop (m # ms) maxPos =
     (case Atoi m of
        None \<Rightarrow> maxPosLoop ms maxPos
      | Some pos \<Rightarrow> maxPosLoop ms (if pos > maxPos then pos else maxPos))"

text \<open>
  \<open>countArgumentsFromHint\<close> counts the matches of \<open>\[[^\]]+\]\<close>: an opening bracket,
  at least one character other than a closing bracket, and a closing bracket.
\<close>

function findBracketed :: "string \<Rightarrow> string list" where
  "findBracketed [] = []"
| "findBracketed (c # cs) =
     (if c = CHR ''['' \<and> takeWhile (\<lambda>x. x \<noteq> CHR '']'') cs \<noteq> []
           \<and> dropWhile (\<lambda>x. x \<noteq> CHR '']'') cs \<noteq> []
      then (c # takeWhile (\<lambda>x. x \<noteq> CHR '']'') cs @ '']'')
             # findBracketed (tl (dropWhile (\<lambda>x. x \<noteq> CHR '']'') cs))
      else findBracketed cs)"
  by pat_completeness auto
termination
proof (relation "measure length", goal_cases)
  case 1
  show ?case by simp
next
  case (2 c cs)
  have "length (tl (dropWhile (\<lambda>x. x \<noteq> CHR '']'') cs)) \<le> length cs"
    using length_dropWhile_le [of "\<lambda>x. x \<noteq> CHR '']''" cs] by simp
  then show ?case by simp
next
  case (3 c cs)
  show ?case by simp
qed

definition countArgumentsFromHint :: "string \<Rightarrow> int" where
  "countArgumentsFromHint hint = (if hint = [] then 0 else int (length (findBracketed hint)))"

definition extractRequiredArguments :: "string \<Rightarrow> string \<Rightarrow> RequiredArguments" where
  "extractRequiredArguments content argumentHint =
     (if matchAllArguments content
      then \<lparr>HasAllArguments = True, MaxPositional = 0, RequiredCount = - 1\<rparr>
      else
        let matches = findPositional content;
            maxPositional = (if length matches > 0 then maxPosLoop matches 0 else 0);
            contentArgCount = maxPositional;
            hintArgCount = (if argumentHint \<noteq> [] then countArgumentsFromHint argumentHint else 0)
        in \<lparr>HasAllArguments = False, MaxPositional = maxPositional,
            RequiredCount = (if hintArgCount > contentArgCount then hintArgCount
                             else contentArgCount)\<rparr>)"

definition substituteArguments :: "string \<Rightarrow> string list \<Rightarrow> string" where
  "substituteArguments content args =
     (if length args = 0 then
        replacePositional (\<lambda>match. []) (ReplaceAllString_allArguments content [])
      else
        let allArgsStr = Join args '' '';
            result = ReplaceAllString_allArguments content allArgsStr
        in replacePositional
             (\<lambda>match.
                let numStr = drop 1 match
                in case Atoi numStr of
                     None \<Rightarrow> match
                   | Some pos \<Rightarrow>
                       let index = pos - 1
                       in if index \<ge> 0 \<and> index < int (length args) then args ! nat index
                          else [])
             result)"

text \<open>\<open>processCommandContent\<close> (content.go).\<close>

definition processCommandContent :: "string \<Rightarrow> string list \<Rightarrow> string" where
  "processCommandContent content args = substituteArguments content args"

section \<open>Argument validation (executor.go, validateArguments)\<close>

text \<open>
  The loop \<open>for i := len(args) + 1; i <= required.MaxPositional; i++\<close> collecting
  \<open>fmt.Sprintf("$%d", i)\<close>.
\<close>

function missingArgs :: "int \<Rightarrow> int \<Rightarrow> string list" where
  "missingArgs i maxPositional =
     (if i \<le> maxPositional then (CHR ''$'' # itoa i) # missingArgs (i + 1) maxPositional
      else [])"
  by pat_completeness auto
termination
  by (relation "measure (\<lambda>(i, m). nat (m + 1 - i))") auto

declare missingArgs.simps [simp del]

definition does_not_accept_msg :: "string \<Rightarrow> nat \<Rightarrow> string" where
  "does_not_accept_msg commandName n =
     ''command '' @ [CHR 0x27] @ commandName @ [CHR 0x27]
       @ '' does not accept arguments, but '' @ itoa (int n) @ '' argument(s) were provided''"

definition requires_msg :: "string \<Rightarrow> int \<Rightarrow> nat \<Rightarrow> string" where
  "requires_msg commandName required n =
     ''command '' @ [CHR 0x27] @ commandName @ [CHR 0x27]
       @ '' requires '' @ itoa required @ '' argument(s), but only '' @ itoa (int n)
       @ '' provided''"

definition validateArguments :: "string list \<Rightarrow> RequiredArguments \<Rightarrow> string \<Rightarrow> error option" where
  "validateArguments args required commandName =
     (if HasAllArguments required then None
      else if RequiredCount required = 0 then
        (if length args > 0 then Some (Error (does_not_accept_msg commandName (length args)))
         else None)
      else if int (length args) < RequiredCount required then
        (let errorMsg = requires_msg commandName (RequiredCount required) (length args);
             missing = (if MaxPositional required > 0
                        then missingArgs (int (length args) + 1) (MaxPositional required)
                        else []);
             errorMsg' = (if length missing > 0
                          then errorMsg @ ''. Missing: '' @ Join missing '', ''
                          else errorMsg)
         in Some (Error errorMsg'))
      else None)"

section \<open>Commands and the registry (command.go, registry implementation)\<close>

record Command =
  Name :: string
  Namespace :: string
  Description :: string
  ArgumentHint :: string
  AllowedTools :: "string list"
  Content :: string
  Path :: string
  Source :: string

text \<open>
  The registry holds a map from names to commands and a list of the commands. The map
  of the source stores pointers into the merged slice; the slice is not modified after
  the map is built, so the map is modelled as holding the commands themselves.
\<close>

record registry =
  commandsMap :: "string \<rightharpoonup> Command"
  commandsList :: "Command list"
  projectDir :: string

definition NewRegistry :: "string \<Rightarrow> registry" where
  "NewRegistry dir = \<lparr>commandsMap = Map.empty, commandsList = [], projectDir = dir\<rparr>"

text \<open>\<open>fmt.Errorf("prefix: %w", err)\<close> and \<open>errors.Join\<close>, by their messages.\<close>

definition wrapError :: "string \<Rightarrow> error \<Rightarrow> error" where
  "wrapError pre err = Error (pre @ '': '' @ error_message err)"

definition errorsJoin :: "error list \<Rightarrow> error" where
  "errorsJoin errs = Error (Join (map error_message errs) [CHR 0x0A])"

text \<open>
  The loop \<open>for i := range allCommands\<close> that fills the map: a later command replaces
  an earlier one of the same name.
\<close>

fun insertCommands :: "Command list \<Rightarrow> (string \<rightharpoonup> Command) \<Rightarrow> (string \<rightharpoonup> Command)" where
  "insertCommands [] m = m"
| "insertCommands (cmd # cmds) m = insertCommands cmds (m(Name cmd \<mapsto> cmd))"

text \<open>
  The names whose insertion found an entry already present (the \<open>conflicts\<close> that are
  logged).
\<close>

fun conflictNames :: "Command list \<Rightarrow> (string \<rightharpoonup> Command) \<Rightarrow> string list" where
  "conflictNames [] m = []"
| "conflictNames (cmd # cmds) m =
     (if m (Name cmd) \<noteq> None then Name cmd # conflictNames cmds (m(Name cmd \<mapsto> cmd))
      else conflictNames cmds (m(Name cmd \<mapsto> cmd)))"

text \<open>
  \<open>for _, cmd := range r.commandsMap\<close> visits every key of the map once, in an order
  that the Go language leaves unspecified and that may differ from one iteration to the
  next. The order chosen by the runtime is a parameter of the model: \<open>order\<close> lists the
  keys as they are visited, and it is a possible order for the map \<open>m\<close> exactly when
  \<open>valid_iteration order m\<close> holds.
\<close>

definition valid_iteration :: "string list \<Rightarrow> (string \<rightharpoonup> Command) \<Rightarrow> bool" where
  "valid_iteration order m \<longleftrightarrow> distinct order \<and> set order = dom m"

definition rangeMap :: "string list \<Rightarrow> (string \<rightharpoonup> Command) \<Rightarrow> Command list" where
  "rangeMap order m = List.map_filter m order"

text \<open>
  \<open>LoadCommands\<close>. The three loaders read the file system; their results (an error, or
  the commands found) are the inputs of the model, in the order in which the source calls
  them: XDG configuration, user home, project. When a loader returns an error the
  commands it may have returned with it are not used. The result is the new registry and
  the returned value.
\<close>

definition appendLoaded ::
  "string \<Rightarrow> error + Command list \<Rightarrow> Command list \<times> error list \<Rightarrow> Command list \<times> error list" where
  "appendLoaded what loaded acc =
     (case loaded of
        Inl err \<Rightarrow> (fst acc, snd acc @ [wrapError what err])
      | Inr cmds \<Rightarrow> (fst acc @ cmds, snd acc))"

definition LoadCommands ::
  "string list \<Rightarrow> error + Command list \<Rightarrow> error + Command list \<Rightarrow> error + Command list
     \<Rightarrow> registry \<Rightarrow> registry \<times> (error + Command list)" where
  "LoadCommands order xdgCommands userCommands projectCommands r =
     (let acc0 = ([], []);
          acc1 = appendLoaded ''XDG config commands'' xdgCommands acc0;
          acc2 = appendLoaded ''user home commands'' userCommands acc1;
          acc3 = appendLoaded ''project commands'' projectCommands acc2;
          allCommands = fst acc3;
          loadErrors = snd acc3;
          m = insertCommands allCommands Map.empty;
          r' = r\<lparr>commandsMap := m, commandsList := rangeMap order m\<rparr>
      in if length loadErrors > 0 \<and> length allCommands = 0
         then (r', Inl (errorsJoin loadErrors))
         else (r', Inr (commandsList r')))"

definition FindCommand :: "registry \<Rightarrow> string \<Rightarrow> error + Command" where
  "FindCommand r name =
     (case commandsMap r name of
        None \<Rightarrow> Inl (Error (''command not found: '' @ name))
      | Some cmd \<Rightarrow> Inr cmd)"

text \<open>\<open>ListCommands\<close> returns a copy of the list.\<close>

definition ListCommands :: "registry \<Rightarrow> Command list" where
  "ListCommands r = commandsList r"

definition Reload ::
  "string list \<Rightarrow> error + Command list \<Rightarrow> error + Command list \<Rightarrow> error + Command list
     \<Rightarrow> registry \<Rightarrow> registry \<times> error option" where
  "Reload order xdgCommands userCommands projectCommands r =
     (case LoadCommands order xdgCommands userCommands projectCommands r of
        (r', Inl err) \<Rightarrow> (r', Some err)
      | (r', Inr cmds) \<Rightarrow> (r', None))"

text \<open>The commands a loader contributed: none when it returned an error.\<close>

definition loadedCommands :: "error + Command list \<Rightarrow> Command list" where
  "loadedCommands loaded = (case loaded of Inl err \<Rightarrow> [] | Inr cmds \<Rightarrow> cmds)"

definition loaderFailed :: "error + Command list \<Rightarrow> bool" where
  "loaderFailed loaded = (case loaded of Inl err \<Rightarrow> True | Inr cmds \<Rightarrow> False)"

text \<open>A command with the given name, source tag and content, used in examples.\<close>

definition exampleCommand :: "string \<Rightarrow> string \<Rightarrow> string \<Rightarrow> Command" where
  "exampleCommand name source content =
     \<lparr>Name = name, Namespace = [], Description = [], ArgumentHint = [], AllowedTools = [],
      Content = content, Path = [], Source = source\<rparr>"

text \<open>
  The test of the loaders' walk callback for a command file:
  \<open>strings.HasSuffix(strings.ToLower(path), ".md")\<close>.
\<close>

definition isCommandFile :: "string \<Rightarrow> bool" where
  "isCommandFile path \<longleftrightarrow> suffix ''.md'' (ToLower path)"

section \<open>File references: extraction, resolution and reading\<close>

text \<open>
  \<open>fileRefPattern\<close> is \<open>@([\w./\\-]+)\<close>: an at sign followed by the longest non-empty
  run of ASCII letters, digits, underscores, dots, slashes, backslashes and hyphens. The
  scanner returns submatch 1 of every match, in order.
\<close>

definition isFileRefChar :: "char \<Rightarrow> bool" where
  "isFileRefChar c \<longleftrightarrow>
     c \<in> set (''abcdefghijklmnopqrstuvwxyzABCDEFGHIJKLMNOPQRSTUVWXYZ0123456789_./-''
               @ [CHR 0x5C])"

function findFileRefs :: "string \<Rightarrow> string list" where
  "findFileRefs [] = []"
| "findFileRefs (c # cs) =
     (if c = CHR ''@'' \<and> takeWhile isFileRefChar cs \<noteq> []
      then takeWhile isFileRefChar cs # findFileRefs (dropWhile isFileRefChar cs)
      else findFileRefs cs)"
  by pat_completeness auto
termination
  by (relation "measure length") (auto simp: less_Suc_eq_le length_dropWhile_le)

text \<open>
  The loop of \<open>parseFileReferences\<close>; the \<open>seen\<close> map holds exactly the paths
  already appended.
\<close>

fun collectRefs :: "string list \<Rightarrow> string list \<Rightarrow> string list" where
  "collectRefs [] fileRefs = fileRefs"
| "collectRefs (m # ms) fileRefs =
     (let filePath = TrimSpace m
      in if filePath = [] then collectRefs ms fileRefs
         else if filePath \<in> set fileRefs then collectRefs ms fileRefs
         else collectRefs ms (fileRefs @ [filePath]))"

definition parseFileReferences :: "string \<Rightarrow> string list" where
  "parseFileReferences content =
     (let matches = findFileRefs content
      in if length matches = 0 then [] else collectRefs matches [])"

definition resolveFilePath :: "string \<Rightarrow> string \<Rightarrow> string" where
  "resolveFilePath workingDir filePath =
     (let normalized = ReplaceAllChar (ToSlash filePath) (CHR 0x5C) ''/''
      in if IsAbs filePath then FromSlash (Clean normalized)
         else Clean (JoinPath [workingDir, Clean normalized]))"

definition resolveFilePaths :: "string list \<Rightarrow> string \<Rightarrow> string list" where
  "resolveFilePaths filePaths workingDir = map (resolveFilePath workingDir) filePaths"

record FileContent =
  fcPath :: string
  fcContent :: string

text \<open>
  The file system as \<open>readSingleFile\<close> sees it: what \<open>os.Stat\<close> and \<open>os.ReadFile\<close>
  give for a path.
\<close>

datatype fs_entry =
    NotExist
  | StatError
  | Directory
  | ReadPermissionDenied
  | ReadError
  | RegularFile string

datatype ErrorType =
    ErrorTypeNotFound
  | ErrorTypePermissionDenied
  | ErrorTypeIsDirectory
  | ErrorTypeAccess
  | ErrorTypeRead

record FileReadError =
  frePath :: string
  freType :: ErrorType

definition readSingleFile :: "(string \<Rightarrow> fs_entry) \<Rightarrow> string \<Rightarrow> FileReadError + string" where
  "readSingleFile fs filePath =
     (case fs filePath of
        NotExist \<Rightarrow> Inl \<lparr>frePath = filePath, freType = ErrorTypeNotFound\<rparr>
      | StatError \<Rightarrow> Inl \<lparr>frePath = filePath, freType = ErrorTypeAccess\<rparr>
      | Directory \<Rightarrow> Inl \<lparr>frePath = filePath, freType = ErrorTypeIsDirectory\<rparr>
      | ReadPermissionDenied \<Rightarrow> Inl \<lparr>frePath = filePath, freType = ErrorTypePermissionDenied\<rparr>
      | ReadError \<Rightarrow> Inl \<lparr>frePath = filePath, freType = ErrorTypeRead\<rparr>
      | RegularFile content \<Rightarrow> Inr content)"

definition readFileContents :: "(string \<Rightarrow> fs_entry) \<Rightarrow> string list \<Rightarrow> FileContent list" where
  "readFileContents fs filePaths =
     map (\<lambda>filePath.
            case readSingleFile fs filePath of
              Inl err \<Rightarrow> \<lparr>fcPath = filePath, fcContent = []\<rparr>
            | Inr content \<Rightarrow> \<lparr>fcPath = filePath, fcContent = content\<rparr>)
         filePaths"

section \<open>Attachments\<close>

record Attachment =
  FilePath :: string
  FileName :: string
  MimeType :: string
  AttachmentContent :: string

text \<open>
  \<open>http.DetectContentType\<close> and \<open>mime.TypeByExtension\<close> are library functions and
  parameters of the model.
\<close>

definition detectMimeType ::
  "(string \<Rightarrow> string) \<Rightarrow> (string \<Rightarrow> string) \<Rightarrow> string \<Rightarrow> string \<Rightarrow> string" where
  "detectMimeType DetectContentType TypeByExtension filePath content =
     (let mimeBufferSize = min 512 (length content)
      in if mimeBufferSize > 0
            \<and> DetectContentType (take mimeBufferSize content) \<noteq> ''application/octet-stream''
         then DetectContentType (take mimeBufferSize content)
         else if TypeByExtension (Ext filePath) \<noteq> [] then TypeByExtension (Ext filePath)
         else ''text/plain'')"

definition buildFileAttachments ::
  "(string \<Rightarrow> string) \<Rightarrow> (string \<Rightarrow> string) \<Rightarrow> FileContent list \<Rightarrow> Attachment list" where
  "buildFileAttachments DetectContentType TypeByExtension fileContents =
     map (\<lambda>fc. \<lparr>FilePath = fcPath fc, FileName = Base (fcPath fc),
                 MimeType = detectMimeType DetectContentType TypeByExtension
                              (fcPath fc) (fcContent fc),
                 AttachmentContent = fcContent fc\<rparr>)
         (filter (\<lambda>fc. fcContent fc \<noteq> []) fileContents)"

section \<open>The executor (executor.go)\<close>

text \<open>
  The executor holds the registry, the working directory and its collaborators. The
  collaborators and the library functions it reaches are fields of the model's record:
  the file system, the coordinator's \<open>Run\<close> (its error, if any, for a session, a prompt
  and attachments), the message service's \<open>Create\<close> (its error, if any, for a session
  and a text), the fuzzy matcher (indices of the matching names, best first), the help
  text produced by the help handler for a registry, and the two content-type functions.
\<close>

record executor =
  exRegistry :: registry
  workingDir :: string
  fileSystem :: "string \<Rightarrow> fs_entry"
  coordinatorRun :: "string \<Rightarrow> string \<Rightarrow> Attachment list \<Rightarrow> error option"
  messagesCreate :: "string \<Rightarrow> string \<Rightarrow> error option"
  fuzzyFind :: "string \<Rightarrow> string list \<Rightarrow> nat list"
  generateHelp :: "registry \<Rightarrow> string"
  contentTypeOf :: "string \<Rightarrow> string"
  typeByExtension :: "string \<Rightarrow> string"

text \<open>The calls an execution makes to its collaborators, in order.\<close>

datatype call =
    RunCall string string "Attachment list"
  | CreateCall string string

definition executeHelpCommand :: "executor \<Rightarrow> string \<Rightarrow> error option \<times> call list" where
  "executeHelpCommand e sessionID =
     (let helpOutput = generateHelp e (exRegistry e)
      in case messagesCreate e sessionID helpOutput of
           Some err \<Rightarrow>
             (Some (Error (''failed to create help message: '' @ error_message err)),
              [CreateCall sessionID helpOutput])
         | None \<Rightarrow> (None, [CreateCall sessionID helpOutput]))"

definition suggestSimilarCommands :: "executor \<Rightarrow> string \<Rightarrow> string list" where
  "suggestSimilarCommands e commandName =
     (let allCommands = ListCommands (exRegistry e)
      in if length allCommands = 0 then []
         else
           let commandNames = map Name allCommands;
               matches = take 3 (fuzzyFind e commandName commandNames)
           in map (\<lambda>i. commandNames ! i) matches)"

text \<open>The paths of the entries with empty content and non-empty path.\<close>

definition failedPaths :: "FileContent list \<Rightarrow> string list" where
  "failedPaths fileContents =
     map fcPath (filter (\<lambda>fc. fcContent fc = [] \<and> fcPath fc \<noteq> []) fileContents)"

definition fileErrorMessage :: "string list \<Rightarrow> string" where
  "fileErrorMessage fileErrors =
     (if length fileErrors = 1 then ''failed to read referenced file: '' @ fileErrors ! 0
      else ''failed to read referenced file(s): '' @ Join fileErrors '', '')"

text \<open>
  Steps 3 of \<open>Execute\<close>: substitution, and the trailer with all arguments when some
  required position is not referenced by the original content.
\<close>

definition processedContent :: "Command \<Rightarrow> string list \<Rightarrow> string" where
  "processedContent cmd args =
     (let requiredArgs = extractRequiredArguments (Content cmd) (ArgumentHint cmd);
          processed = processCommandContent (Content cmd) args
      in if length args > 0 \<and> RequiredCount requiredArgs \<noteq> - 1
            \<and> \<not> hasAllRequiredArguments (Content cmd) (RequiredCount requiredArgs)
         then processed @ [CHR 0x0A, CHR 0x0A] @ ''Arguments: '' @ Join args '' ''
         else processed)"

definition executionWrapper :: string where
  "executionWrapper = ''Execute this directly - do not analyze or search:'' @ [CHR 0x0A, CHR 0x0A]"

definition Execute :: "executor \<Rightarrow> string \<Rightarrow> string \<Rightarrow> string list \<Rightarrow> error option \<times> call list" where
  "Execute e sessionID commandName args =
     (if commandName = ''help'' then executeHelpCommand e sessionID
      else
        case FindCommand (exRegistry e) commandName of
          Inl err \<Rightarrow>
            (let suggestions = suggestSimilarCommands e commandName;
                 errorMsg = ''command '' @ [CHR 0x27] @ commandName @ [CHR 0x27] @ '' not found'';
                 errorMsg' = (if length suggestions > 0
                              then errorMsg @ ''. Did you mean: '' @ Join suggestions '', '' @ ''?''
                              else errorMsg)
             in (Some (Error (errorMsg' @ '': '' @ error_message err)), []))
        | Inr cmd \<Rightarrow>
            (let requiredArgs = extractRequiredArguments (Content cmd) (ArgumentHint cmd)
             in case validateArguments args requiredArgs commandName of
                  Some err \<Rightarrow> (Some err, [])
                | None \<Rightarrow>
                    (let processed = processedContent cmd args;
                         fileRefs = parseFileReferences processed;
                         resolvedPaths = resolveFilePaths fileRefs (workingDir e);
                         fileContents = readFileContents (fileSystem e) resolvedPaths;
                         fileErrors = failedPaths fileContents
                     in if length fileErrors > 0
                        then (Some (Error (fileErrorMessage fileErrors)), [])
                        else
                          (let attachments = buildFileAttachments (contentTypeOf e)
                                               (typeByExtension e) fileContents;
                               wrapped = executionWrapper @ processed
                           in case coordinatorRun e sessionID wrapped attachments of
                                Some err \<Rightarrow>
                                  (Some (Error (''failed to execute command '' @ [CHR 0x27]
                                                 @ commandName @ [CHR 0x27] @ '': ''
                                                 @ error_message err)),
                                   [RunCall sessionID wrapped attachments])
                              | None \<Rightarrow> (None, [RunCall sessionID wrapped attachments])))))"



section \<open>Verified properties\<close>

subsection \<open>Argument validation\<close>





subsection \<open>Argument requirements\<close>

lemma maxPosLoop_Max:
  "maxPosLoop ms m = Max (insert m (set (List.map_filter Atoi ms)))"
proof (induction ms arbitrary: m)
  case Nil
  show ?case by simp
next
  case (Cons a ms)
  show ?case
  proof (cases "Atoi a")
    case None
    then show ?thesis using Cons by simp
  next
    case (Some pos)
    have fin: "finite (set (List.map_filter Atoi ms))" by simp
    have "Max (insert (max pos m) (set (List.map_filter Atoi ms)))
            = Max (insert m (insert pos (set (List.map_filter Atoi ms))))"
      by (cases "set (List.map_filter Atoi ms) = {}") (auto simp: max.commute max.left_commute max.assoc)
    moreover have "(if m < pos then pos else m) = max pos m" by (simp add: max_def)
    ultimately show ?thesis using Some Cons [of "max pos m"]
      by simp
  qed
qed

text \<open>
  Claim C5, as amended. When the all-arguments placeholder occurs in the body, the result
  is \<open>HasAllArguments = True\<close>, \<open>RequiredCount = -1\<close> (and \<open>MaxPositional = 0\<close>:
  the positional references are not analysed). Otherwise \<open>MaxPositional\<close> is the
  maximum of the integers referenced by those positional references whose digits
  \<open>Atoi\<close> accepts (0 when there is none; a reference whose number does not fit an
  \<open>int\<close> is skipped), gaps included, and \<open>RequiredCount\<close> is the maximum of
  \<open>MaxPositional\<close> and the number of bracket-delimited tokens of the hint. A body
  with only \<open>$1\<close> and \<open>$3\<close> requires 3.
\<close>

theorem extractRequiredArguments_amended:
  "(matchAllArguments body \<longrightarrow>
      extractRequiredArguments body hint
        = \<lparr>HasAllArguments = True, MaxPositional = 0, RequiredCount = - 1\<rparr>)
   \<and> (\<not> matchAllArguments body \<longrightarrow>
        HasAllArguments (extractRequiredArguments body hint) = False
        \<and> MaxPositional (extractRequiredArguments body hint)
            = Max (insert 0 (set (List.map_filter Atoi (findPositional body))))
        \<and> RequiredCount (extractRequiredArguments body hint)
            = max (MaxPositional (extractRequiredArguments body hint))
                  (int (length (findBracketed hint))))
   \<and> extractRequiredArguments ''Use $1 and $3'' ''''
        = \<lparr>HasAllArguments = False, MaxPositional = 3, RequiredCount = 3\<rparr>"
proof (intro conjI impI)
  assume "matchAllArguments body"
  then show "extractRequiredArguments body hint
        = \<lparr>HasAllArguments = True, MaxPositional = 0, RequiredCount = - 1\<rparr>"
    by (simp add: extractRequiredArguments_def)
next
  assume "\<not> matchAllArguments body"
  then show "HasAllArguments (extractRequiredArguments body hint) = False"
    by (simp add: extractRequiredArguments_def Let_def)
next
  assume n: "\<not> matchAllArguments body"
  have "findPositional body = [] \<Longrightarrow> List.map_filter Atoi (findPositional body) = []"
    by simp
  then show mp: "MaxPositional (extractRequiredArguments body hint)
            = Max (insert 0 (set (List.map_filter Atoi (findPositional body))))"
    using n by (auto simp: extractRequiredArguments_def Let_def maxPosLoop_Max)
next
  assume n: "\<not> matchAllArguments body"
  show "RequiredCount (extractRequiredArguments body hint)
            = max (MaxPositional (extractRequiredArguments body hint))
                  (int (length (findBracketed hint)))"
    using n by (auto simp: extractRequiredArguments_def Let_def countArgumentsFromHint_def max_def)
next
  show "extractRequiredArguments ''Use $1 and $3'' ''''
        = \<lparr>HasAllArguments = False, MaxPositional = 3, RequiredCount = 3\<rparr>"
    by (simp add: extractRequiredArguments_def allArgumentsAt_def isDigit_def Atoi_def parseDigits_def digitVal_def)
qed

text \<open>
  The claim as stated fails: the only integer referenced by the body below is
  99999999999999999999, and \<open>MaxPositional\<close> and \<open>RequiredCount\<close> are 0.
\<close>

theorem extractRequiredArguments_counterexample:
  "findPositional ''$99999999999999999999'' = [''99999999999999999999'']
   \<and> extractRequiredArguments ''$99999999999999999999'' ''''
        = \<lparr>HasAllArguments = False, MaxPositional = 0, RequiredCount = 0\<rparr>"
  by (simp add: extractRequiredArguments_def allArgumentsAt_def isDigit_def Atoi_def parseDigits_def digitVal_def)

theorem extractRequiredArguments_amended_witness:
  "matchAllArguments ''Use $ARGS and $1''
   \<and> extractRequiredArguments ''Use $ARGS and $1'' ''[a]''
        = \<lparr>HasAllArguments = True, MaxPositional = 0, RequiredCount = - 1\<rparr>
   \<and> \<not> matchAllArguments ''Run $2''
   \<and> MaxPositional (extractRequiredArguments ''Run $2'' ''[a] [b] [c]'') = 2
   \<and> RequiredCount (extractRequiredArguments ''Run $2'' ''[a] [b] [c]'') = 3"
proof -
  have a: "matchAllArguments ''Use $ARGS and $1''" by (simp add: allArgumentsAt_def)
  have b: "\<not> matchAllArguments ''Run $2''" by (simp add: allArgumentsAt_def)
  have c: "List.map_filter Atoi (findPositional ''Run $2'') = [2]"
    by (simp add: isDigit_def Atoi_def parseDigits_def digitVal_def)
  have d: "findBracketed ''[a] [b] [c]'' = [''[a]'', ''[b]'', ''[c]'']" by simp
  have e: "extractRequiredArguments ''Use $ARGS and $1'' ''[a]''
        = \<lparr>HasAllArguments = True, MaxPositional = 0, RequiredCount = - 1\<rparr>"
    using a extractRequiredArguments_amended [of "''Use $ARGS and $1''" "''[a]''"] by blast
  have f: "MaxPositional (extractRequiredArguments ''Run $2'' ''[a] [b] [c]'')
            = Max (insert 0 (set (List.map_filter Atoi (findPositional ''Run $2''))))"
    and g: "RequiredCount (extractRequiredArguments ''Run $2'' ''[a] [b] [c]'')
            = max (MaxPositional (extractRequiredArguments ''Run $2'' ''[a] [b] [c]''))
                  (int (length (findBracketed ''[a] [b] [c]'')))"
    using b extractRequiredArguments_amended [of "''Run $2''" "''[a] [b] [c]''"] by blast+
  have f': "MaxPositional (extractRequiredArguments ''Run $2'' ''[a] [b] [c]'') = 2"
    unfolding f c by simp
  have g': "RequiredCount (extractRequiredArguments ''Run $2'' ''[a] [b] [c]'') = 3"
    unfolding g f' d by simp
  show ?thesis using a b e f' g' by blast
qed

subsection \<open>Argument substitution\<close>

lemma expand_no_dollar: "CHR ''$'' \<notin> set template \<Longrightarrow> expand template matched = template"
  by (subst expand.simps) simp

lemma set_Join: "set (Join xs sep) \<subseteq> (\<Union>x\<in>set xs. set x) \<union> set sep"
  by (induction xs sep rule: Join.induct) auto

lemma Join_no_dollar:
  assumes "\<forall>a\<in>set args. CHR ''$'' \<notin> set a"
  shows "CHR ''$'' \<notin> set (Join args '' '')"
proof
  assume "CHR ''$'' \<in> set (Join args '' '')"
  then have "CHR ''$'' \<in> (\<Union>x\<in>set args. set x) \<union> set '' ''"
    using set_Join [of args "'' ''"] by blast
  then show False using assms by auto
qed

text \<open>
  Claim C6, as amended. When no argument contains a dollar sign, substitution first
  replaces every occurrence of the all-arguments placeholder with the arguments joined by
  a single space, then replaces every positional reference \<open>$N\<close> of the result:
  with \<open>args[N-1]\<close> when \<open>1 \<le> N \<le> length args\<close>, with the empty string when
  \<open>N\<close> is 0 or beyond the arguments, and, when the digits do not fit an \<open>int\<close>,
  with the reference itself (left as literal text) if arguments were supplied and with
  the empty string if none were. With no arguments every placeholder of both families
  resolves to the empty string. The two examples of the claim hold.
\<close>

theorem substituteArguments_amended:
  "((\<forall>a\<in>set args. CHR ''$'' \<notin> set a) \<longrightarrow>
      substituteArguments body args =
        replacePositional
          (\<lambda>match. case Atoi (tl match) of
                      None \<Rightarrow> (if args = [] then [] else match)
                    | Some n \<Rightarrow> (if 1 \<le> n \<and> n \<le> int (length args) then args ! nat (n - 1)
                                else []))
          (replaceAllArguments (\<lambda>match. Join args '' '') body))
   \<and> substituteArguments ''Review PR $1 with priority $2'' [''123'', ''high'']
        = ''Review PR 123 with priority high''
   \<and> substituteArguments ''Use $1 and $3'' [''a'', ''b''] = ''Use a and ''"
proof (intro conjI impI)
  assume nd: "\<forall>a\<in>set args. CHR ''$'' \<notin> set a"
  have ex: "expand (Join args '' '') = (\<lambda>match. Join args '' '')"
    using Join_no_dollar [OF nd] by (auto simp: expand_no_dollar)
  show "substituteArguments body args =
        replacePositional
          (\<lambda>match. case Atoi (tl match) of
                      None \<Rightarrow> (if args = [] then [] else match)
                    | Some n \<Rightarrow> (if 1 \<le> n \<and> n \<le> int (length args) then args ! nat (n - 1)
                                else []))
          (replaceAllArguments (\<lambda>match. Join args '' '') body)"
  proof (cases "args = []")
    case True
    have f: "(\<lambda>match. case Atoi (tl match) of
                      None \<Rightarrow> (if args = [] then [] else match)
                    | Some n \<Rightarrow> (if 1 \<le> n \<and> n \<le> int (length args) then args ! nat (n - 1)
                                else []))
               = (\<lambda>match. [])"
    proof (rule ext)
      fix m :: string
      show "(case Atoi (tl m) of
               None \<Rightarrow> (if args = [] then [] else m)
             | Some n \<Rightarrow> (if 1 \<le> n \<and> n \<le> int (length args) then args ! nat (n - 1)
                         else [])) = []"
        using True by (cases "Atoi (tl m)") auto
    qed
    have e0: "expand [] = (\<lambda>match. [])"
      by (auto simp: expand_no_dollar)
    show ?thesis using True
      by (simp add: substituteArguments_def ReplaceAllString_allArguments_def e0 f)
  next
    case False
    have f: "(\<lambda>match. case Atoi (drop 1 match) of
                 None \<Rightarrow> match
               | Some pos \<Rightarrow> if 0 \<le> pos - 1 \<and> pos - 1 < int (length args)
                             then args ! nat (pos - 1) else [])
           = (\<lambda>match. case Atoi (tl match) of
                      None \<Rightarrow> (if args = [] then [] else match)
                    | Some n \<Rightarrow> (if 1 \<le> n \<and> n \<le> int (length args) then args ! nat (n - 1)
                                else []))"
    proof (rule ext)
      fix m :: string
      show "(case Atoi (drop 1 m) of
                 None \<Rightarrow> m
               | Some pos \<Rightarrow> if 0 \<le> pos - 1 \<and> pos - 1 < int (length args)
                             then args ! nat (pos - 1) else [])
           = (case Atoi (tl m) of
                      None \<Rightarrow> (if args = [] then [] else m)
                    | Some n \<Rightarrow> (if 1 \<le> n \<and> n \<le> int (length args) then args ! nat (n - 1)
                                else []))"
        using False by (cases "Atoi (tl m)") (auto simp: drop_Suc)
    qed
    show ?thesis
      unfolding substituteArguments_def ReplaceAllString_allArguments_def Let_def ex f
      using False by simp
  qed
next
  show "substituteArguments ''Review PR $1 with priority $2'' [''123'', ''high'']
        = ''Review PR 123 with priority high''"
    by (simp add: substituteArguments_def ReplaceAllString_allArguments_def allArgumentsAt_def
        isDigit_def Atoi_def parseDigits_def digitVal_def expand.simps)
next
  show "substituteArguments ''Use $1 and $3'' [''a'', ''b''] = ''Use a and ''"
    by (simp add: substituteArguments_def ReplaceAllString_allArguments_def allArgumentsAt_def
        isDigit_def Atoi_def parseDigits_def digitVal_def expand.simps)
qed

theorem substituteArguments_amended_witness:
  "CHR ''$'' \<notin> set ''7'' \<and> CHR ''$'' \<notin> set ''x y''
   \<and> substituteArguments ''$2: $ARGS, $1$0$3 $99999999999999999999'' [''7'', ''x y'']
       = ''x y: 7 x y, 7 $99999999999999999999''"
proof -
  have h: "\<forall>a\<in>set [''7'', ''x y'']. CHR ''$'' \<notin> set a" by simp
  have "substituteArguments ''$2: $ARGS, $1$0$3 $99999999999999999999'' [''7'', ''x y''] =
        replacePositional
          (\<lambda>match. case Atoi (tl match) of
                      None \<Rightarrow> (if [''7'', ''x y''] = [] then [] else match)
                    | Some n \<Rightarrow> (if 1 \<le> n \<and> n \<le> int (length [''7'', ''x y''])
                                then [''7'', ''x y''] ! nat (n - 1) else []))
          (replaceAllArguments (\<lambda>match. Join [''7'', ''x y''] '' '')
             ''$2: $ARGS, $1$0$3 $99999999999999999999'')"
    using h substituteArguments_amended [of "[''7'', ''x y'']" "''$2: $ARGS, $1$0$3 $99999999999999999999''"]
    by blast
  also have "\<dots> = ''x y: 7 x y, 7 $99999999999999999999''"
    by (simp add: allArgumentsAt_def isDigit_def Atoi_def parseDigits_def digitVal_def)
  finally show ?thesis by simp
qed

text \<open>
  The claim as stated fails: a positional reference whose number is out of range for the
  two supplied arguments, but also too large for an \<open>int\<close>, is not replaced by the
  empty string; the guard \<open>if err != nil { return match }\<close> keeps it.
\<close>

theorem substituteArguments_counterexample:
  "substituteArguments ''Use $99999999999999999999'' [''a'', ''b'']
     = ''Use $99999999999999999999''"
  by (simp add: substituteArguments_def ReplaceAllString_allArguments_def allArgumentsAt_def
        isDigit_def Atoi_def parseDigits_def digitVal_def expand.simps)

text \<open>
  Outside the hypothesis of the amended claim: dollar signs inside the arguments are
  interpreted by \<open>ReplaceAllString\<close> as template references, so the inserted text is
  not the joined arguments.
\<close>

lemma substituteArguments_dollar_in_argument:
  "substituteArguments ''Run $ARGS'' [''$5'', ''a$$b'', ''$0''] = ''Run  a$b $ARGS''"
  by (simp add: substituteArguments_def ReplaceAllString_allArguments_def allArgumentsAt_def
        isDigit_def isNameChar_def extractName_def Atoi_def parseDigits_def digitVal_def expand.simps)

subsection \<open>Registry\<close>

lemma insertCommands_lookup:
  "insertCommands cmds m n =
     (if \<exists>c\<in>set cmds. Name c = n then Some (last (filter (\<lambda>c. Name c = n) cmds)) else m n)"
proof (induction cmds arbitrary: m)
  case Nil
  show ?case by simp
next
  case (Cons cmd cmds)
  show ?case
    by (auto simp: Cons filter_empty_conv)
qed

lemma dom_insertCommands: "dom (insertCommands cmds m) = Name ` set cmds \<union> dom m"
  by (induction cmds arbitrary: m) auto

lemma appendLoaded_fst:
  "fst (appendLoaded what loaded acc) = fst acc @ loadedCommands loaded"
  by (cases loaded) (simp_all add: appendLoaded_def loadedCommands_def)

lemma appendLoaded_snd_empty:
  "snd (appendLoaded what loaded acc) = [] \<longleftrightarrow> snd acc = [] \<and> \<not> loaderFailed loaded"
  by (cases loaded) (simp_all add: appendLoaded_def loaderFailed_def)

lemma LoadCommands_map:
  "commandsMap (fst (LoadCommands order xdg user project r)) =
     insertCommands (loadedCommands xdg @ loadedCommands user @ loadedCommands project) Map.empty"
  by (simp add: LoadCommands_def Let_def appendLoaded_fst)

lemma last_filter_append:
  "\<exists>c\<in>set ys. P c \<Longrightarrow> last (filter P (xs @ ys)) = last (filter P ys)"
  by (simp add: filter_empty_conv)

lemma filter_append_none:
  "\<not> (\<exists>c\<in>set ys. P c) \<Longrightarrow> filter P (xs @ ys) = filter P xs"
  by (simp add: filter_empty_conv)


lemma LoadCommands_result:
  "snd (LoadCommands order xdg user project r) =
     (if (loaderFailed xdg \<or> loaderFailed user \<or> loaderFailed project)
          \<and> loadedCommands xdg @ loadedCommands user @ loadedCommands project = []
      then Inl (errorsJoin (snd (appendLoaded ''project commands'' project
                             (appendLoaded ''user home commands'' user
                               (appendLoaded ''XDG config commands'' xdg ([], []))))))
      else Inr (commandsList (fst (LoadCommands order xdg user project r))))"
  by (auto simp: LoadCommands_def Let_def appendLoaded_fst appendLoaded_snd_empty)

text \<open>
  Claim C1. After \<open>LoadCommands\<close>, a name that a project command carries is found as
  the project command (the last one of that name the project loader returned); a name
  carried by no project command but by a user-home command is found as that user-home
  command; otherwise a name carried by a shared-configuration (XDG) command is found as
  that one. The map is built by inserting the loaders' results in the order XDG, user
  home, project, a later insertion replacing an earlier one of the same name, and such a
  replacement is no error: the load succeeds.
\<close>

theorem LoadCommands_precedence:
  "((\<exists>c\<in>set (loadedCommands project). Name c = n) \<longrightarrow>
      FindCommand (fst (LoadCommands order xdg user project r)) n
        = Inr (last (filter (\<lambda>c. Name c = n) (loadedCommands project))))
   \<and> (\<not> (\<exists>c\<in>set (loadedCommands project). Name c = n)
        \<and> (\<exists>c\<in>set (loadedCommands user). Name c = n) \<longrightarrow>
      FindCommand (fst (LoadCommands order xdg user project r)) n
        = Inr (last (filter (\<lambda>c. Name c = n) (loadedCommands user))))
   \<and> (\<not> (\<exists>c\<in>set (loadedCommands project). Name c = n)
        \<and> \<not> (\<exists>c\<in>set (loadedCommands user). Name c = n)
        \<and> (\<exists>c\<in>set (loadedCommands xdg). Name c = n) \<longrightarrow>
      FindCommand (fst (LoadCommands order xdg user project r)) n
        = Inr (last (filter (\<lambda>c. Name c = n) (loadedCommands xdg))))
   \<and> commandsMap (fst (LoadCommands order xdg user project r))
        = insertCommands (loadedCommands xdg @ loadedCommands user @ loadedCommands project)
            Map.empty
   \<and> ((\<exists>c\<in>set (loadedCommands xdg @ loadedCommands user @ loadedCommands project). Name c = n) \<longrightarrow>
        snd (LoadCommands order xdg user project r)
          = Inr (commandsList (fst (LoadCommands order xdg user project r))))"
proof -
  let ?P = "\<lambda>c. Name c = n"
  let ?all = "loadedCommands xdg @ loadedCommands user @ loadedCommands project"
  let ?reg = "fst (LoadCommands order xdg user project r)"
  have m: "commandsMap ?reg n =
             (if \<exists>c\<in>set ?all. ?P c then Some (last (filter ?P ?all)) else None)"
    unfolding LoadCommands_map insertCommands_lookup by simp
  have p: "(\<exists>c\<in>set (loadedCommands project). ?P c) \<Longrightarrow>
             commandsMap ?reg n = Some (last (filter ?P (loadedCommands project)))"
    unfolding m by (auto simp: filter_empty_conv)
  have u: "\<not> (\<exists>c\<in>set (loadedCommands project). ?P c) \<Longrightarrow>
           (\<exists>c\<in>set (loadedCommands user). ?P c) \<Longrightarrow>
             commandsMap ?reg n = Some (last (filter ?P (loadedCommands user)))"
    unfolding m by (auto simp: filter_empty_conv)
  have x: "\<not> (\<exists>c\<in>set (loadedCommands project). ?P c) \<Longrightarrow>
           \<not> (\<exists>c\<in>set (loadedCommands user). ?P c) \<Longrightarrow>
           (\<exists>c\<in>set (loadedCommands xdg). ?P c) \<Longrightarrow>
             commandsMap ?reg n = Some (last (filter ?P (loadedCommands xdg)))"
    unfolding m by (auto simp: filter_empty_conv)
  have s: "(\<exists>c\<in>set ?all. ?P c) \<Longrightarrow>
            snd (LoadCommands order xdg user project r) = Inr (commandsList ?reg)"
    unfolding LoadCommands_result by auto
  show ?thesis
    using p u x s LoadCommands_map [of order xdg user project r]
    by (simp add: FindCommand_def)
qed

theorem LoadCommands_precedence_witness:
  "FindCommand
     (fst (LoadCommands [''review'', ''deploy'', ''lint'']
        (Inr [exampleCommand ''review'' ''user'' ''shared'', exampleCommand ''lint'' ''user'' ''l'',
              exampleCommand ''deploy'' ''user'' ''d1''])
        (Inr [exampleCommand ''review'' ''user'' ''personal'', exampleCommand ''deploy'' ''user'' ''d2''])
        (Inr [exampleCommand ''review'' ''project'' ''local''])
        (NewRegistry ''/p''))) ''review''
     = Inr (exampleCommand ''review'' ''project'' ''local'')
   \<and> FindCommand
     (fst (LoadCommands [''review'', ''deploy'', ''lint'']
        (Inr [exampleCommand ''review'' ''user'' ''shared'', exampleCommand ''lint'' ''user'' ''l'',
              exampleCommand ''deploy'' ''user'' ''d1''])
        (Inr [exampleCommand ''review'' ''user'' ''personal'', exampleCommand ''deploy'' ''user'' ''d2''])
        (Inr [exampleCommand ''review'' ''project'' ''local''])
        (NewRegistry ''/p''))) ''deploy''
     = Inr (exampleCommand ''deploy'' ''user'' ''d2'')
   \<and> FindCommand
     (fst (LoadCommands [''review'', ''deploy'', ''lint'']
        (Inr [exampleCommand ''review'' ''user'' ''shared'', exampleCommand ''lint'' ''user'' ''l'',
              exampleCommand ''deploy'' ''user'' ''d1''])
        (Inr [exampleCommand ''review'' ''user'' ''personal'', exampleCommand ''deploy'' ''user'' ''d2''])
        (Inr [exampleCommand ''review'' ''project'' ''local''])
        (NewRegistry ''/p''))) ''lint''
     = Inr (exampleCommand ''lint'' ''user'' ''l'')"
proof -
  let ?x = "Inr [exampleCommand ''review'' ''user'' ''shared'', exampleCommand ''lint'' ''user'' ''l'',
              exampleCommand ''deploy'' ''user'' ''d1''] :: error + Command list"
  let ?u = "Inr [exampleCommand ''review'' ''user'' ''personal'',
              exampleCommand ''deploy'' ''user'' ''d2''] :: error + Command list"
  let ?p = "Inr [exampleCommand ''review'' ''project'' ''local''] :: error + Command list"
  note t = LoadCommands_precedence [of ?p _ "[''review'', ''deploy'', ''lint'']" ?x ?u
      "NewRegistry ''/p''"]
  show ?thesis
    using t [of "''review''"] t [of "''deploy''"] t [of "''lint''"]
    by (simp add: loadedCommands_def exampleCommand_def)
qed


text \<open>
  What the code does: the load fails exactly when some loader failed and no command was
  obtained; whenever a command was obtained it succeeds with the partial results.
\<close>

lemma LoadCommands_fails_iff:
  "(\<exists>err. snd (LoadCommands order xdg user project r) = Inl err) \<longleftrightarrow>
     (loaderFailed xdg \<or> loaderFailed user \<or> loaderFailed project)
     \<and> loadedCommands xdg @ loadedCommands user @ loadedCommands project = []"
  unfolding LoadCommands_result by auto

lemma LoadCommands_partial_success:
  "loadedCommands xdg @ loadedCommands user @ loadedCommands project \<noteq> [] \<Longrightarrow>
   snd (LoadCommands order xdg user project r)
     = Inr (commandsList (fst (LoadCommands order xdg user project r)))"
  unfolding LoadCommands_result by auto

text \<open>
  For every possible iteration order the list holds exactly the commands of the map, one
  per name, in that order.
\<close>

lemma rangeMap_valid:
  assumes "valid_iteration order m"
  shows "map Name (rangeMap order m) = map (\<lambda>k. Name (the (m k))) order"
    and "set (rangeMap order m) = ran m"
    and "length (rangeMap order m) = length order"
proof -
  have all: "\<forall>k\<in>set order. m k \<noteq> None"
    using assms by (auto simp: valid_iteration_def)
  then have eq: "rangeMap order m = map (\<lambda>k. the (m k)) order"
    unfolding rangeMap_def
  proof (induction order)
    case Nil
    show ?case by simp
  next
    case (Cons k ks)
    then show ?case by auto
  qed
  show "map Name (rangeMap order m) = map (\<lambda>k. Name (the (m k))) order"
    by (simp add: eq comp_def)
  show "length (rangeMap order m) = length order" by (simp add: eq)
  show "set (rangeMap order m) = ran m"
  proof -
    have "set order = dom m" using assms by (simp add: valid_iteration_def)
    then show ?thesis unfolding eq by (force simp: ran_def dom_def)
  qed
qed

text \<open>
  The map after a load depends on the loaders' results only: a reload with the same
  results gives the same map, whatever the iteration orders.
\<close>

lemma Reload_same_map:
  "commandsMap (fst (Reload order2 xdg user project
      (fst (LoadCommands order1 xdg user project r))))
   = commandsMap (fst (LoadCommands order1 xdg user project r))"
proof -
  have "fst (Reload order2 xdg user project r') = fst (LoadCommands order2 xdg user project r')"
    for r'
    by (cases "LoadCommands order2 xdg user project r'") (auto simp: Reload_def split: sum.splits)
  then show ?thesis by (simp add: LoadCommands_map)
qed

text \<open>
  Claim C7 says that a reload without file-system changes gives an identical snapshot and
  that \<open>ListCommands\<close> has a stable order. The list is built by ranging over the map,
  so its order is the runtime's iteration order: with the same two project commands, a
  load that iterates \<open>a, b\<close> and a reload that iterates \<open>b, a\<close> (both possible orders
  for the map) give differently ordered lists.
\<close>

theorem LoadCommands_list_order_unstable:
  "valid_iteration [''a'', ''b'']
     (commandsMap (fst (LoadCommands [''a'', ''b''] (Inr []) (Inr [])
        (Inr [exampleCommand ''a'' ''project'' ''A'', exampleCommand ''b'' ''project'' ''B''])
        (NewRegistry ''/p''))))
   \<and> valid_iteration [''b'', ''a'']
     (commandsMap (fst (LoadCommands [''b'', ''a''] (Inr []) (Inr [])
        (Inr [exampleCommand ''a'' ''project'' ''A'', exampleCommand ''b'' ''project'' ''B''])
        (NewRegistry ''/p''))))
   \<and> ListCommands (fst (LoadCommands [''a'', ''b''] (Inr []) (Inr [])
        (Inr [exampleCommand ''a'' ''project'' ''A'', exampleCommand ''b'' ''project'' ''B''])
        (NewRegistry ''/p'')))
       = [exampleCommand ''a'' ''project'' ''A'', exampleCommand ''b'' ''project'' ''B'']
   \<and> ListCommands (fst (Reload [''b'', ''a''] (Inr []) (Inr [])
        (Inr [exampleCommand ''a'' ''project'' ''A'', exampleCommand ''b'' ''project'' ''B''])
        (fst (LoadCommands [''a'', ''b''] (Inr []) (Inr [])
          (Inr [exampleCommand ''a'' ''project'' ''A'', exampleCommand ''b'' ''project'' ''B''])
          (NewRegistry ''/p'')))))
       = [exampleCommand ''b'' ''project'' ''B'', exampleCommand ''a'' ''project'' ''A'']"
  by (auto simp: LoadCommands_def Reload_def Let_def appendLoaded_def valid_iteration_def
      rangeMap_def ListCommands_def exampleCommand_def NewRegistry_def)

subsection \<open>Metadata-block parser\<close>

lemma Index_ge: "- 1 \<le> Index s sub"
  by (induction s) (auto simp: Let_def)

lemma Index_single_neg: "Index s [x] < 0 \<longleftrightarrow> x \<notin> set s"
  by (induction s) (auto simp: Let_def)

lemma Index_single_lt: "x \<in> set s \<Longrightarrow> Index s [x] < int (length s)"
  by (induction s) (auto simp: Let_def Index_single_neg)

lemma Index_found_set: "0 \<le> Index s sub \<Longrightarrow> set sub \<subseteq> set s"
proof (induction s)
  case Nil
  then show ?case by (auto split: if_splits)
next
  case (Cons c cs)
  show ?case
  proof (cases "prefix sub (c # cs)")
    case True
    then show ?thesis using set_mono_prefix [OF True] by auto
  next
    case False
    then have "0 \<le> Index cs sub" using Cons.prems by (auto simp: Let_def split: if_splits)
    then show ?thesis using Cons.IH by auto
  qed
qed

lemma closingIndex_newline:
  assumes "closingIndex content = Some i"
  shows "CHR 0x0A \<in> set content"
proof (cases "Index content closingDelimiter \<noteq> - 1")
  case True
  then have "0 \<le> Index content closingDelimiter"
    using Index_ge [of content closingDelimiter] by linarith
  then show ?thesis using Index_found_set [of content closingDelimiter]
    by (auto simp: closingDelimiter_def)
next
  case False
  then have "suffix (butlast closingDelimiter) content"
    using assms by (auto simp: closingIndex_def split: if_splits)
  then have "set (butlast closingDelimiter) \<subseteq> set content"
    by (rule set_mono_suffix)
  then show ?thesis by (auto simp: closingDelimiter_def)
qed


lemma find_None_iff': "List.find P xs = None \<longleftrightarrow> (\<forall>x\<in>set xs. \<not> P x)"
  by (induction xs) auto

lemma leadingSpace_zero_iff: "leadingSpace s = 0 \<longleftrightarrow> (\<forall>r\<in>set spaceRunes. \<not> prefix r s)"
proof (cases "List.find (\<lambda>r. prefix r s) spaceRunes")
  case None
  then have "\<forall>r\<in>set spaceRunes. \<not> prefix r s" by (simp add: find_None_iff')
  moreover have "leadingSpace s = 0" using None by (simp add: leadingSpace_def)
  ultimately show ?thesis by simp
next
  case (Some r)
  then have "prefix r s" "r \<in> set spaceRunes"
    using find_Some_holds [of "\<lambda>r. prefix r s" spaceRunes r] by auto
  then show ?thesis using Some spaceRunes_nonempty [of r] by (auto simp: leadingSpace_def)
qed

lemma trailingSpace_zero_iff: "trailingSpace s = 0 \<longleftrightarrow> (\<forall>r\<in>set spaceRunes. \<not> suffix r s)"
proof (cases "List.find (\<lambda>r. suffix r s) spaceRunes")
  case None
  then have "\<forall>r\<in>set spaceRunes. \<not> suffix r s" by (simp add: find_None_iff')
  moreover have "trailingSpace s = 0" using None by (simp add: trailingSpace_def)
  ultimately show ?thesis by simp
next
  case (Some r)
  then have "suffix r s" "r \<in> set spaceRunes"
    using find_Some_holds [of "\<lambda>r. suffix r s" spaceRunes r] by auto
  then show ?thesis using Some spaceRunes_nonempty [of r] by (auto simp: trailingSpace_def)
qed

lemma TrimLeftSpace_no_leading: "leadingSpace (TrimLeftSpace s) = 0"
proof (induction s rule: TrimLeftSpace.induct)
  case (1 s)
  show ?case
  proof (cases "leadingSpace s = 0")
    case True
    then show ?thesis by (subst TrimLeftSpace.simps) simp
  next
    case False
    then show ?thesis using 1 by (subst TrimLeftSpace.simps) simp
  qed
qed

lemma TrimRightSpace_no_trailing: "trailingSpace (TrimRightSpace s) = 0"
proof (induction s rule: TrimRightSpace.induct)
  case (1 s)
  show ?case
  proof (cases "trailingSpace s = 0")
    case True
    then show ?thesis by (subst TrimRightSpace.simps) simp
  next
    case False
    then show ?thesis using 1 by (subst TrimRightSpace.simps) simp
  qed
qed

lemma TrimRightSpace_prefix: "prefix (TrimRightSpace s) s"
proof (induction s rule: TrimRightSpace.induct)
  case (1 s)
  show ?case
  proof (cases "trailingSpace s = 0")
    case True
    then show ?thesis by (subst TrimRightSpace.simps) simp
  next
    case False
    then have "prefix (TrimRightSpace (take (length s - trailingSpace s) s))
                 (take (length s - trailingSpace s) s)"
      using 1 by simp
    moreover have "prefix (take (length s - trailingSpace s) s) s"
      by (rule take_is_prefix)
    ultimately have "prefix (TrimRightSpace (take (length s - trailingSpace s) s)) s"
      by (rule prefix_order.trans)
    then show ?thesis using False by (subst TrimRightSpace.simps) simp
  qed
qed

lemma TrimSpace_no_space:
  "\<forall>r\<in>set spaceRunes. \<not> prefix r (TrimSpace s) \<and> \<not> suffix r (TrimSpace s)"
proof
  fix r assume r: "r \<in> set spaceRunes"
  have "\<not> suffix r (TrimSpace s)"
    using TrimRightSpace_no_trailing [of "TrimLeftSpace s"] r
    by (auto simp: TrimSpace_def trailingSpace_zero_iff)
  moreover have "\<not> prefix r (TrimSpace s)"
  proof
    assume "prefix r (TrimSpace s)"
    then have "prefix r (TrimLeftSpace s)"
      using TrimRightSpace_prefix [of "TrimLeftSpace s"]
      unfolding TrimSpace_def by (rule prefix_order.trans)
    then show False
      using TrimLeftSpace_no_leading [of s] r by (auto simp: leadingSpace_zero_iff)
  qed
  ultimately show "\<not> prefix r (TrimSpace s) \<and> \<not> suffix r (TrimSpace s)" by simp
qed


text \<open>
  Claim C10. When the metadata block is recognised (opening delimiter, closing delimiter
  at index \<open>i\<close>), is not empty after trimming and parses, the body returned is the text
  after the closing delimiter (from index \<open>i + 5\<close> on) with leading and trailing white
  space removed: it neither begins nor ends with a white-space character.
\<close>

theorem ParseFrontmatter_body_trimmed:
  "prefix ''---'' (TrimPrefix content BOM)
   \<and> closingIndex (TrimPrefix content BOM) = Some i
   \<and> TrimSpace (blockBetween (TrimPrefix content BOM) i) \<noteq> []
   \<and> yamlUnmarshal (TrimSpace (blockBetween (TrimPrefix content BOM) i)) = Unmarshalled fm
   \<longrightarrow>
     ParseFrontmatter yamlUnmarshal content
       = (splitAllowedTools fm, TrimSpace (drop (nat (i + 5)) (TrimPrefix content BOM)), None)
     \<and> (\<forall>r\<in>set spaceRunes.
           \<not> prefix r (fst (snd (ParseFrontmatter yamlUnmarshal content)))
           \<and> \<not> suffix r (fst (snd (ParseFrontmatter yamlUnmarshal content))))"
proof (intro impI)
  let ?c = "TrimPrefix content BOM"
  assume h: "prefix ''---'' ?c \<and> closingIndex ?c = Some i
     \<and> TrimSpace (blockBetween ?c i) \<noteq> []
     \<and> yamlUnmarshal (TrimSpace (blockBetween ?c i)) = Unmarshalled fm"
  have ne: "content \<noteq> []" using h by (auto simp: TrimPrefix_def BOM_def)
  have nl: "CHR 0x0A \<in> set ?c" using h closingIndex_newline by blast
  have ys0: "Index ?c [CHR 0x0A] + 1 \<noteq> 0"
    using nl Index_single_neg [of ?c "CHR 0x0A"] by auto
  have ys1: "\<not> Index ?c [CHR 0x0A] + 1 > int (length ?c)"
    using Index_single_lt [OF nl] by simp
  have blk: "blockBetween ?c i \<noteq> []"
  proof
    assume "blockBetween ?c i = []"
    then have "TrimSpace (blockBetween ?c i) = []"
      by (simp add: TrimSpace_def TrimLeftSpace.simps TrimRightSpace.simps leadingSpace_def
          trailingSpace_def spaceRunes_def suffix_def)
    then show False using h by simp
  qed
  have ge: "\<not> i < Index ?c [CHR 0x0A] + 1"
    using blk by (auto simp: blockBetween_def Let_def split: if_splits)
  have dr: "drop (nat (if i + 5 > int (length ?c) then int (length ?c) else i + 5)) ?c
              = drop (nat (i + 5)) ?c"
    by auto
  have res: "ParseFrontmatter yamlUnmarshal content
       = (splitAllowedTools fm, TrimSpace (drop (nat (i + 5)) ?c), None)"
    using ne h ys0 ys1 ge dr by (simp add: ParseFrontmatter_def Let_def)
  show "ParseFrontmatter yamlUnmarshal content
       = (splitAllowedTools fm, TrimSpace (drop (nat (i + 5)) ?c), None)
     \<and> (\<forall>r\<in>set spaceRunes.
           \<not> prefix r (fst (snd (ParseFrontmatter yamlUnmarshal content)))
           \<and> \<not> suffix r (fst (snd (ParseFrontmatter yamlUnmarshal content))))"
    unfolding res using TrimSpace_no_space by simp
qed


lemmas frontmatter_eval =
  TrimPrefix_def BOM_def closingIndex_def closingDelimiter_def blockBetween_def TrimSpace_def
  TrimLeftSpace.simps TrimRightSpace.simps leadingSpace_def trailingSpace_def spaceRunes_def
  suffix_to_prefix Let_def



theorem ParseFrontmatter_body_trimmed_witness:
  "ParseFrontmatter
      (\<lambda>s. if s = ''description: Test''
           then Unmarshalled \<lparr>fm_Description = ''Test'', fm_ArgumentHint = [], fm_AllowedTools = []\<rparr>
           else UnmarshalError)
      (BOM @ ''---\<newline>description: Test\<newline>---\<newline>\<newline>  # Content \<newline>'')
     = (\<lparr>fm_Description = ''Test'', fm_ArgumentHint = [], fm_AllowedTools = []\<rparr>,
        ''# Content'', None)"
proof -
  let ?y = "\<lambda>s. if s = ''description: Test''
           then Unmarshalled \<lparr>fm_Description = ''Test'', fm_ArgumentHint = [], fm_AllowedTools = []\<rparr>
           else UnmarshalError"
  let ?c = "''---\<newline>description: Test\<newline>---\<newline>\<newline>  # Content \<newline>''"
  have c: "TrimPrefix (BOM @ ?c) BOM = ?c" by (simp add: TrimPrefix_def)
  have p: "prefix ''---'' ?c" by simp
  have i: "closingIndex ?c = Some 21" by (simp add: frontmatter_eval)
  have b: "TrimSpace (blockBetween ?c 21) = ''description: Test''"
    by (simp add: frontmatter_eval)
  have t: "TrimSpace (drop (nat (21 + 5)) ?c) = ''# Content''"
    by (simp add: frontmatter_eval)
  have s: "splitAllowedTools \<lparr>fm_Description = ''Test'', fm_ArgumentHint = [], fm_AllowedTools = []\<rparr>
            = \<lparr>fm_Description = ''Test'', fm_ArgumentHint = [], fm_AllowedTools = []\<rparr>"
    by (simp add: splitAllowedTools_def)
  have "ParseFrontmatter ?y (BOM @ ?c)
       = (splitAllowedTools \<lparr>fm_Description = ''Test'', fm_ArgumentHint = [], fm_AllowedTools = []\<rparr>,
          TrimSpace (drop (nat (21 + 5)) ?c), None)"
    using ParseFrontmatter_body_trimmed [of "BOM @ ?c" 21 ?y
        "\<lparr>fm_Description = ''Test'', fm_ArgumentHint = [], fm_AllowedTools = []\<rparr>"]
      p i b
    unfolding c by simp
  then show ?thesis unfolding t s .
qed

subsection \<open>Command names\<close>

lemmas path_eval =
  deriveCommandName_def Rel_def Clean_def relLoop.simps elementEnd_def slice_def Dir_def Base_def
  stripTrailingSlashes_def TrimSuffix_def ToSlash_def ReplaceAllChar_def backtrack_def
  suffix_to_prefix Let_def

text \<open>
  Claim C9 says that every loaded command file, matched by a case-insensitive \<open>.md\<close>
  extension, gets as name its directory segments joined by colons followed by the final
  segment with the extension stripped. \<open>deriveCommandName\<close> strips \<open>.md\<close> and
  \<open>.MD\<close> only: the file \<open>docs/Review.Md\<close> is accepted by the loaders' test and
  keeps its extension in the name.
\<close>

theorem deriveCommandName_mixed_case_extension:
  "isCommandFile ''/commands/docs/Review.Md''
   \<and> deriveCommandName ''/commands/docs/Review.Md'' ''/commands'' = (''docs:Review.Md'', ''docs'')"
  by (simp add: path_eval isCommandFile_def ToLower_def toLowerChar_def)

text \<open>The examples of the claim, and the upper-case extension, are derived as stated.\<close>

lemma deriveCommandName_examples:
  "deriveCommandName ''/commands/frontend/components/button.md'' ''/commands''
     = (''frontend:components:button'', ''frontend:components'')"
  "deriveCommandName ''/commands/review-pr.md'' ''/commands'' = (''review-pr'', [])"
  "deriveCommandName ''/commands/review-pr.MD'' ''/commands'' = (''review-pr'', [])"
  by (simp_all add: path_eval)

text \<open>
  Two more inputs where the name is not the final segment without its extension: a
  doubled extension loses both parts, and a file called \<open>.md\<close> takes the name of its
  directory.
\<close>

lemma deriveCommandName_other_slips:
  "deriveCommandName ''/commands/a/x.MD.md'' ''/commands'' = (''a:x'', ''a'')"
  "deriveCommandName ''/commands/a/.md'' ''/commands'' = (''a:a'', ''a'')"
  by (simp_all add: path_eval)

subsection \<open>Executor\<close>





lemma fileErrorMessage_wording:
  "fileErrorMessage [p] = ''failed to read referenced file: '' @ p"
  "fileErrorMessage (p # q # ps) = ''failed to read referenced file(s): '' @ Join (p # q # ps) '', ''"
  by (simp_all add: fileErrorMessage_def)








end
